theory Spec2Isabelle
  imports Main "HOL-Library.Sublist"
begin

section \<open>UptimeMonitor: a shallow embedding of main.go\<close>

text \<open>
  The monitor talks to the network, a database, a chat webhook and a mail relay. Each
  function of main.go is embedded as a HOL function that returns the list of effects it
  requests, in program order, and how it ended (return or panic). What the outside
  answers is read from a record of oracles, \<open>world\<close>.
\<close>

subsection \<open>Library functions used by the program\<close>

text \<open>\<open>strings.Contains(s, substr)\<close>.\<close>

fun Contains :: "string \<Rightarrow> string \<Rightarrow> bool" where
  "Contains [] substr = (substr = [])"
| "Contains (c # s) substr = (prefix substr (c # s) \<or> Contains s substr)"

text \<open>\<open>strings.TrimPrefix(s, prefix)\<close>: \<open>s\<close> without the leading \<open>prefix\<close>, or \<open>s\<close> itself.\<close>

definition TrimPrefix :: "string \<Rightarrow> string \<Rightarrow> string" where
  "TrimPrefix s p = (if prefix p s then drop (length p) s else s)"

text \<open>\<open>strings.ReplaceAll(message, `"`, `\"`)\<close>: a backslash before every double quote.\<close>

definition escapeQuotes :: "string \<Rightarrow> string" where
  "escapeQuotes message =
     concat (map (\<lambda>c. if c = CHR 0x22 then [CHR 0x5C, CHR 0x22] else [c]) message)"

text \<open>The verb \<open>%d\<close> of \<open>fmt.Sprintf\<close> on an \<open>int\<close>: decimal digits, a minus sign if negative.\<close>

fun showNat :: "nat \<Rightarrow> string" where
  "showNat n =
     (if n < 10 then [''0123456789'' ! n]
      else showNat (n div 10) @ [''0123456789'' ! (n mod 10)])"

definition showInt :: "int \<Rightarrow> string" where
  "showInt i = (if i < 0 then ''-'' @ showNat (nat (- i)) else showNat (nat i))"

subsection \<open>Effects, oracles and outcomes\<close>

text \<open>A \<open>time.Duration\<close> (nanoseconds).\<close>

type_synonym duration = int

text \<open>
  The three statements the program executes with \<open>db.Exec\<close>: the UPDATE of
  \<open>updateWebsiteStatus\<close>, the INSERT of \<open>saveRespTime\<close> and the UPDATE of \<open>checkSSL\<close>,
  each with the arguments of the enclosing function.
\<close>

datatype db_stmt =
    SetWebsiteStatus string string duration
  | InsertResponseTime string duration
  | SetSSLInfo string string string

text \<open>
  The effects a function requests. \<open>HttpPost\<close> carries the body posted to the chat
  webhook, \<open>SmtpSendMail\<close> the recipient and the message; the configured endpoint, relay
  and credentials are left out.
\<close>

datatype event =
    Stdout string
  | HttpGet string
  | HttpPost string
  | DbExec db_stmt
  | DbQueryWebsites
  | DbQueryClientEmail string
  | TlsDial string
  | SmtpSendMail string string

text \<open>
  The result of \<open>http.Get(url)\<close>: an error with the text of \<open>err.Error()\<close>, or a response
  with its \<open>StatusCode\<close> and the \<open>time.Since(startTime)\<close> measured after it.
\<close>

datatype http_result = GetError string | Response int duration

text \<open>
  The first certificate fields the program reads: \<open>Issuer.String()\<close> and
  \<open>NotAfter.Format(time.RFC850)\<close>.
\<close>

record certificate =
  Issuer :: string
  NotAfter :: string

text \<open>
  An open TLS connection: \<open>VerifyHostname(host)\<close> gives the error text if the
  certificate does not match, and \<open>ConnectionState().PeerCertificates\<close> the chain.
\<close>

record tls_conn =
  VerifyHostname :: "string \<Rightarrow> string option"
  PeerCertificates :: "certificate list"

text \<open>
  What the outside answers. An error is the text of \<open>err.Error()\<close>; \<open>None\<close> and \<open>Inr\<close>
  are \<open>err == nil\<close>. \<open>clock\<close> is \<open>time.Now()\<close> in the layout of line 209, \<open>ownerEmail\<close> the
  row scanned at line 271, \<open>websiteURLs\<close> what \<open>getWebsiteURLs\<close> (lines 133-153) returns.
\<close>

record world =
  httpGet :: "string \<Rightarrow> http_result"
  clock :: string
  tlsDial :: "string \<Rightarrow> string + tls_conn"
  dbExec :: "db_stmt \<Rightarrow> string option"
  ownerEmail :: "string \<Rightarrow> string + string"
  httpPost :: "string \<Rightarrow> string + int \<times> string"
  smtpSendMail :: "string \<Rightarrow> string \<Rightarrow> string option"
  websiteURLs :: "string + string list"

text \<open>How a call ended: it returned, or it panicked with a message.\<close>

datatype outcome = Returned | Panicked string

subsection \<open>The leaf functions\<close>

text \<open>\<open>sendSlackMessage\<close> (lines 115-131): escape, wrap in JSON, post, log a failure.\<close>

definition sendSlackMessage :: "world \<Rightarrow> string \<Rightarrow> event list" where
  \<open>sendSlackMessage w message =
     (let message = escapeQuotes message;
          payload = ''{"text": "'' @ message @ ''"}''
      in HttpPost payload #
         (case httpPost w payload of
            Inl err \<Rightarrow> [Stdout (''Error sending Slack message: '' @ err @ ''\<newline>'')]
          | Inr (StatusCode, Status) \<Rightarrow>
              if StatusCode \<noteq> 200
              then [Stdout (''Slack API returned non-OK status: '' @ Status @ ''\<newline>'')]
              else []))\<close>

text \<open>\<open>updateWebsiteStatus\<close> (lines 155-161).\<close>

definition updateWebsiteStatus :: "world \<Rightarrow> string \<Rightarrow> string \<Rightarrow> duration \<Rightarrow> event list" where
  "updateWebsiteStatus w url status responseTime =
     DbExec (SetWebsiteStatus url status responseTime) #
     (case dbExec w (SetWebsiteStatus url status responseTime) of
        Some err \<Rightarrow>
          [Stdout (''Error updating website status for '' @ url @ '': '' @ err @ ''\<newline>'')]
      | None \<Rightarrow> [])"

text \<open>\<open>saveRespTime\<close> (lines 163-169).\<close>

definition saveRespTime :: "world \<Rightarrow> string \<Rightarrow> duration \<Rightarrow> event list" where
  "saveRespTime w url responseTime =
     DbExec (InsertResponseTime url responseTime) #
     (case dbExec w (InsertResponseTime url responseTime) of
        Some err \<Rightarrow>
          [Stdout (''Error updating website status for '' @ url @ '': '' @ err @ ''\<newline>'')]
      | None \<Rightarrow> [])"

text \<open>
  \<open>checkSSL\<close> (lines 171-192). Both error branches panic. Indexing
  \<open>PeerCertificates[0]\<close> of an empty chain is Go's run-time index panic.
\<close>

definition checkSSL :: "world \<Rightarrow> string \<Rightarrow> event list \<times> outcome" where
  "checkSSL w url =
     (let strippedURL = TrimPrefix url ''https://'';
          addr = strippedURL @ '':443''
      in case tlsDial w addr of
           Inl err \<Rightarrow>
             ([TlsDial addr],
              Panicked (''Server doesn't support SSL certificate err: '' @ err))
         | Inr conn \<Rightarrow>
             (case VerifyHostname conn strippedURL of
                Some err \<Rightarrow>
                  ([TlsDial addr],
                   Panicked (''Hostname doesn't match with certificate: '' @ err))
              | None \<Rightarrow>
                  (case PeerCertificates conn of
                     [] \<Rightarrow>
                       ([TlsDial addr],
                        Panicked ''runtime error: index out of range [0] with length 0'')
                   | cert # _ \<Rightarrow>
                       (let issuer = Issuer cert;
                            expiredssl = NotAfter cert
                        in ([TlsDial addr, DbExec (SetSSLInfo url issuer expiredssl)] @
                            (case dbExec w (SetSSLInfo url issuer expiredssl) of
                               Some err \<Rightarrow>
                                 [Stdout (''Error updating website ssl info for '' @ url @
                                          '': '' @ err @ ''\<newline>'')]
                             | None \<Rightarrow> []),
                            Returned)))))"

text \<open>\<open>sendEmail\<close> (lines 194-202).\<close>

definition sendEmail :: "world \<Rightarrow> string \<Rightarrow> string \<Rightarrow> string \<Rightarrow> event list" where
  "sendEmail w to subject body =
     (let msg = ''To: '' @ to @ [CHR 0x0D, CHR 0x0A] @ ''Subject: '' @ subject @
                [CHR 0x0D, CHR 0x0A, CHR 0x0D, CHR 0x0A] @ body
      in SmtpSendMail to msg #
         (case smtpSendMail w to msg of
            Some err \<Rightarrow> [Stdout (''Error sending email: '' @ err @ ''\<newline>'')]
          | None \<Rightarrow> []))"

text \<open>
  \<open>sendEmailToClient\<close> (lines 266-281): look the owner up; when the lookup fails, log
  and return without sending.
\<close>

definition sendEmailToClient :: "world \<Rightarrow> string \<Rightarrow> string \<Rightarrow> event list" where
  "sendEmailToClient w url status =
     DbQueryClientEmail url #
     (case ownerEmail w url of
        Inl err \<Rightarrow>
          [Stdout (''Error getting client email for '' @ url @ '': '' @ err @ ''\<newline>'')]
      | Inr clientEmail \<Rightarrow>
          (let subject = ''ALERT!!!: Website '' @ url @ '' is Down'';
               body = ''Dear user,\<newline>\<newline>The website '' @ url @
                      '' is currently down.\<newline>\<newline>Status:\<newline> '' @ status @
                      ''\<newline>\<newline>Please check it ASAP''
           in sendEmail w clientEmail subject body))"

subsection \<open>The check of one URL\<close>

text \<open>
  \<open>checkWebsite\<close> (lines 204-264). \<open>err\<close> is the variable assigned at line 206 and
  tested again at lines 216, 224, 235 and 260; after line 240 it is \<open>nil\<close>.
\<close>

definition checkWebsite :: "world \<Rightarrow> string \<Rightarrow> event list \<times> outcome" where
  "checkWebsite w url =
     (let resp = httpGet w url;
          err = (case resp of GetError e \<Rightarrow> Some e | Response _ _ \<Rightarrow> None);
          timeString = clock w
      in case resp of
           GetError errText \<Rightarrow>
             if Contains errText ''net/http: TLS handshake timeout'' then
               ([HttpGet url] @
                updateWebsiteStatus w url errText 0 @
                [Stdout (''WEBSITE DOWN --> Error: '' @ errText @ ''\<newline>''),
                 Stdout (''Current time: '' @ timeString @ ''\<newline>'')] @
                (case err of
                   Some e \<Rightarrow>
                     sendSlackMessage w
                       (''WARNING: Website '' @ url @ '' could be down, please check. Status: '' @
                        e @ '' \<newline> Time: '' @ timeString)
                 | None \<Rightarrow> []),
                Returned)
             else if Contains errText ''no such host'' then
               ([HttpGet url] @
                updateWebsiteStatus w url errText 0 @
                [Stdout (''WEBSITE DOWN --> Error: '' @ errText @ ''\<newline>''),
                 Stdout (''Current time: '' @ timeString @ ''\<newline>'')] @
                (case err of
                   Some e \<Rightarrow>
                     sendSlackMessage w
                       (''WARNING: Website '' @ url @ '' could be down. Status: '' @
                        e @ '' \<newline> Time: '' @ timeString)
                 | None \<Rightarrow> []) @
                sendEmailToClient w url errText,
                Returned)
             else
               ([HttpGet url] @
                updateWebsiteStatus w url errText 0 @
                [Stdout (''WEBSITE DOWN --> Error: '' @ errText @ ''\<newline>''),
                 Stdout (''Current time: '' @ timeString @ ''\<newline>'')] @
                sendEmailToClient w url errText @
                (case err of
                   Some e \<Rightarrow>
                     sendSlackMessage w
                       (''ATTENTION: Website '' @ url @ '' is down. Status: '' @
                        e @ '' \<newline> Time: '' @ timeString)
                 | None \<Rightarrow> []),
                Returned)
         | Response StatusCode responseTime \<Rightarrow>
             if StatusCode = 200 then
               (let (ssl, ended) = checkSSL w url
                in ([HttpGet url] @
                    updateWebsiteStatus w url ''Up'' responseTime @
                    saveRespTime w url responseTime @
                    ssl,
                    ended))
             else
               ([HttpGet url] @
                updateWebsiteStatus w url
                  (''Down (Status Code: '' @ showInt StatusCode @ '')'') 0 @
                [Stdout (''Website '' @ url @ '' is down. Status code: '' @
                         showInt StatusCode @ ''\<newline>'')] @
                sendEmailToClient w url (''Down (Status Code: '' @ showInt StatusCode @ '')'') @
                (case err of
                   Some e \<Rightarrow>
                     sendSlackMessage w
                       (''WARNING: Website '' @ url @ '' is down. Status: '' @
                        e @ '' \<newline> Time: '' @ timeString)
                 | None \<Rightarrow> []),
                Returned))"

subsection \<open>The de-duplication set\<close>

text \<open>
  \<open>checkedURLs\<close> (line 25) is a Go \<open>map[string]bool\<close>; reading a missing key gives
  \<open>false\<close>.
\<close>

type_synonym checked = "string \<rightharpoonup> bool"

definition lookupURL :: "checked \<Rightarrow> string \<Rightarrow> bool" where
  "lookupURL checkedURLs url = (case checkedURLs url of Some b \<Rightarrow> b | None \<Rightarrow> False)"

text \<open>The test \<open>!checkedURLs[url]\<close> of line 93.\<close>

definition shouldCheck :: "checked \<Rightarrow> string \<Rightarrow> bool" where
  "shouldCheck checkedURLs url = (\<not> lookupURL checkedURLs url)"

text \<open>The assignment \<open>checkedURLs[url] = true\<close> of line 95.\<close>

definition markChecked :: "checked \<Rightarrow> string \<Rightarrow> checked" where
  "markChecked checkedURLs url = checkedURLs(url \<mapsto> True)"

text \<open>\<open>resetCheckedURLs\<close> (lines 102-105): the variable gets a fresh, empty map.\<close>

definition resetCheckedURLs :: "checked \<Rightarrow> checked" where
  "resetCheckedURLs checkedURLs = Map.empty"

subsection \<open>The passes over the URL list\<close>

text \<open>
  The loop of lines 62-64: every URL of the list, in order. A panic ends the process,
  so nothing after it runs.
\<close>

fun startupPass :: "world \<Rightarrow> string list \<Rightarrow> event list \<times> outcome" where
  "startupPass w [] = ([], Returned)"
| "startupPass w (url # websites) =
     (case checkWebsite w url of
        (tr, Panicked p) \<Rightarrow> (tr, Panicked p)
      | (tr, Returned) \<Rightarrow>
          (let (tr', ended) = startupPass w websites in (tr @ tr', ended)))"

text \<open>The loop of lines 92-97: check the URLs that are not marked, and mark them.\<close>

fun tickPass :: "world \<Rightarrow> string list \<Rightarrow> checked \<Rightarrow> event list \<times> outcome \<times> checked" where
  "tickPass w [] checkedURLs = ([], Returned, checkedURLs)"
| "tickPass w (url # websites) checkedURLs =
     (if \<not> lookupURL checkedURLs url then
        (case checkWebsite w url of
           (tr, Panicked p) \<Rightarrow> (tr, Panicked p, checkedURLs)
         | (tr, Returned) \<Rightarrow>
             (let (tr', ended, checkedURLs') =
                    tickPass w websites (markChecked checkedURLs url)
              in (tr @ tr', ended, checkedURLs')))
      else tickPass w websites checkedURLs)"

subsection \<open>The process\<close>

text \<open>
  How the process stands: still in its loop, ended by \<open>os.Exit(code)\<close>, ended by
  \<open>main\<close> returning, or ended by a panic. A Go program whose \<open>main\<close> returns exits with
  status 0, and one that panics with status 2.
\<close>

datatype proc_status = Running | OsExit int | MainReturned | Crashed string

fun exitCode :: "proc_status \<Rightarrow> int option" where
  "exitCode Running = None"
| "exitCode (OsExit code) = Some code"
| "exitCode MainReturned = Some 0"
| "exitCode (Crashed p) = Some 2"

text \<open>
  The two timers of \<open>main\<close>: the ticker of line 70 and the sleeping goroutine of lines
  73-79. A firing of the ticker comes with the world its pass runs in. Each firing is
  one step: a reset falls between two passes.
\<close>

datatype timer = TickerC world | ResetTimer

text \<open>The loop of lines 81-99, driven by the firings observed so far.\<close>

fun loop :: "timer list \<Rightarrow> checked \<Rightarrow> event list \<times> proc_status \<times> checked" where
  "loop [] checkedURLs = ([], Running, checkedURLs)"
| "loop (ResetTimer # timers) checkedURLs = loop timers (resetCheckedURLs checkedURLs)"
| "loop (TickerC w # timers) checkedURLs =
     (case websiteURLs w of
        Inl err \<Rightarrow>
          (let (tr, st, checkedURLs') = loop timers checkedURLs
           in ([DbQueryWebsites,
                Stdout (''Error fetching website URLs: '' @ err @ ''\<newline>'')] @ tr,
               st, checkedURLs'))
      | Inr websites \<Rightarrow>
          (case tickPass w websites checkedURLs of
             (tr, Panicked p, checkedURLs') \<Rightarrow> (DbQueryWebsites # tr, Crashed p, checkedURLs')
           | (tr, Returned, checkedURLs') \<Rightarrow>
               (let (tr', st, checkedURLs'') = loop timers checkedURLs'
                in (DbQueryWebsites # tr @ tr', st, checkedURLs''))))"

text \<open>
  What \<open>main\<close> meets while it starts: the errors of \<open>godotenv.Load()\<close> (line 17) and of
  \<open>sql.Open\<close> (line 48), and the world of the first pass.
\<close>

record boot =
  godotenvLoad :: "string option"
  sqlOpen :: "string option"
  bootWorld :: world

text \<open>
  \<open>loadEnv\<close> and \<open>main\<close> (lines 16-22 and 28-100). \<open>loadEnv\<close> prints the error and calls
  \<open>os.Exit(1)\<close>; a failing \<open>sql.Open\<close> ends in the \<open>return\<close> of line 52; a failing first
  \<open>getWebsiteURLs\<close> is printed and the first pass runs over the nil list.
\<close>

definition main :: "boot \<Rightarrow> timer list \<Rightarrow> event list \<times> proc_status" where
  "main b timers =
     (let w = bootWorld b
      in case godotenvLoad b of
           Some err \<Rightarrow> ([Stdout err], OsExit 1)
         | None \<Rightarrow>
             (case sqlOpen b of
                Some err \<Rightarrow>
                  (sendSlackMessage w ''MONITOR --> Starting script..'' @
                   [Stdout (''Error connecting to the database: '' @ err @ ''\<newline>'')] @
                   sendSlackMessage w ''WARNING --> Database connection error'',
                   MainReturned)
              | None \<Rightarrow>
                  (let started =
                         sendSlackMessage w ''MONITOR --> Starting script..'' @
                         [Stdout ''Database connected\<newline>''] @
                         sendSlackMessage w
                           ''MONITOR --> Database connected \<newline>MONITOR --> Script started'' @
                         [DbQueryWebsites];
                       (fetched, websites) =
                         (case websiteURLs w of
                            Inl err \<Rightarrow>
                              ([Stdout (''Error fetching website URLs: '' @ err @ ''\<newline>'')],
                               [])
                          | Inr websites \<Rightarrow> ([], websites))
                   in case startupPass w websites of
                        (tr, Panicked p) \<Rightarrow> (started @ fetched @ tr, Crashed p)
                      | (tr, Returned) \<Rightarrow>
                          (let (tr', st, checkedURLs) = loop timers Map.empty
                           in (started @ fetched @ tr @ tr', st)))))"

subsection \<open>Observations on a trace\<close>

text \<open>The number of probes of a URL: its \<open>http.Get\<close> calls.\<close>

definition probes :: "string \<Rightarrow> event list \<Rightarrow> nat" where
  "probes url tr = count_list tr (HttpGet url)"

text \<open>The bodies posted to the chat webhook, and the mails handed to the relay.\<close>

fun chatPosts :: "event list \<Rightarrow> string list" where
  "chatPosts [] = []"
| "chatPosts (HttpPost payload # tr) = payload # chatPosts tr"
| "chatPosts (_ # tr) = chatPosts tr"

fun mails :: "event list \<Rightarrow> (string \<times> string) list" where
  "mails [] = []"
| "mails (SmtpSendMail to msg # tr) = (to, msg) # mails tr"
| "mails (_ # tr) = mails tr"

text \<open>
  The calls of \<open>updateWebsiteStatus\<close> (url, status, response time) and of
  \<open>saveRespTime\<close> (url, response time), read off their statements.
\<close>

fun statusWrites :: "event list \<Rightarrow> (string \<times> string \<times> duration) list" where
  "statusWrites [] = []"
| "statusWrites (DbExec (SetWebsiteStatus url status rt) # tr) =
     (url, status, rt) # statusWrites tr"
| "statusWrites (_ # tr) = statusWrites tr"

fun latencySamples :: "event list \<Rightarrow> (string \<times> duration) list" where
  "latencySamples [] = []"
| "latencySamples (DbExec (InsertResponseTime url rt) # tr) = (url, rt) # latencySamples tr"
| "latencySamples (_ # tr) = latencySamples tr"

text \<open>The addresses handed to \<open>tls.Dial\<close>, in order.\<close>

fun dials :: "event list \<Rightarrow> string list" where
  "dials [] = []"
| "dials (TlsDial addr # tr) = addr # dials tr"
| "dials (_ # tr) = dials tr"

text \<open>The JSON body \<open>sendSlackMessage\<close> posts for a message.\<close>

definition chatPayload :: "string \<Rightarrow> string" where
  \<open>chatPayload message = ''{"text": "'' @ escapeQuotes message @ ''"}''\<close>

text \<open>
  The address rule of Go's dialer that matters for \<open>checkSSL\<close>: the address is split at
  its last colon, and unless it begins with a bracket, another colon before that one is
  refused as "too many colons in address" before any connection is made. A world
  obeys the rule when its \<open>tlsDial\<close> answers such addresses with an error.
\<close>

definition tooManyColons :: "string \<Rightarrow> bool" where
  "tooManyColons hostport \<longleftrightarrow>
     \<not> prefix ''['' hostport \<and> 2 \<le> length (filter (\<lambda>c. c = CHR '':'') hostport)"

definition refusesTooManyColons :: "world \<Rightarrow> bool" where
  "refusesTooManyColons w \<longleftrightarrow> (\<forall>addr. tooManyColons addr \<longrightarrow> isl (tlsDial w addr))"

text \<open>
  Certificate inspection fails for a URL when the dial of \<open>checkSSL\<close> returns an error
  or the hostname check on the connection does.
\<close>

definition certFailure :: "world \<Rightarrow> string \<Rightarrow> bool" where
  "certFailure w url =
     (case tlsDial w (TrimPrefix url ''https://'' @ '':443'') of
        Inl err \<Rightarrow> True
      | Inr conn \<Rightarrow> VerifyHostname conn (TrimPrefix url ''https://'') \<noteq> None)"

text \<open>The mail \<open>sendEmailToClient\<close> composes for a recipient, a URL and a status.\<close>

definition alertMail :: "string \<Rightarrow> string \<Rightarrow> string \<Rightarrow> string" where
  "alertMail to url status =
     ''To: '' @ to @ [CHR 0x0D, CHR 0x0A] @
     ''Subject: '' @ (''ALERT!!!: Website '' @ url @ '' is Down'') @
     [CHR 0x0D, CHR 0x0A, CHR 0x0D, CHR 0x0A] @
     (''Dear user,\<newline>\<newline>The website '' @ url @
      '' is currently down.\<newline>\<newline>Status:\<newline> '' @ status @
      ''\<newline>\<newline>Please check it ASAP'')"

subsection \<open>Concrete worlds\<close>

text \<open>A world in which every site answers 200 in 120 ms and nothing fails.\<close>

definition goodConn :: tls_conn where
  "goodConn =
     \<lparr>VerifyHostname = (\<lambda>host. None),
      PeerCertificates =
        [\<lparr>Issuer = ''CN=Test CA'', NotAfter = ''Friday, 01-Jan-27 00:00:00 UTC''\<rparr>]\<rparr>"

definition calmWorld :: world where
  "calmWorld =
     \<lparr>httpGet = (\<lambda>url. Response 200 120000000),
      clock = ''2024-01-01 00:00:00'',
      tlsDial = (\<lambda>addr. Inr goodConn),
      dbExec = (\<lambda>stmt. None),
      ownerEmail = (\<lambda>url. Inr ''owner@client.test''),
      httpPost = (\<lambda>payload. Inr (200, ''200 OK'')),
      smtpSendMail = (\<lambda>to msg. None),
      websiteURLs = Inr []\<rparr>"

text \<open>The TLS dial to \<open>bad.test\<close> fails; \<open>ok.test\<close> is fine.\<close>

definition badCertWorld :: world where
  "badCertWorld =
     calmWorld
       \<lparr>tlsDial :=
          (\<lambda>addr. if addr = ''bad.test:443''
                   then Inl ''remote error: tls: handshake failure''
                   else Inr goodConn),
        websiteURLs := Inr [''https://bad.test'', ''https://ok.test'']\<rparr>"

text \<open>Every site answers 503.\<close>

definition http503World :: world where
  "http503World = calmWorld\<lparr>httpGet := (\<lambda>url. Response 503 85000000)\<rparr>"

text \<open>The name of the site does not resolve.\<close>

definition noHostWorld :: world where
  \<open>noHostWorld =
     calmWorld
       \<lparr>httpGet :=
          (\<lambda>url. GetError ''Get "https://down.test": dial tcp: lookup down.test: no such host'')\<rparr>\<close>

text \<open>The TLS handshake of the probe times out.\<close>

definition tlsTimeoutWorld :: world where
  \<open>tlsTimeoutWorld =
     calmWorld
       \<lparr>httpGet :=
          (\<lambda>url. GetError ''Get "https://slow.test": net/http: TLS handshake timeout'')\<rparr>\<close>

text \<open>The dialer refuses an address with too many colons, as Go's does.\<close>

definition strictDialWorld :: world where
  "strictDialWorld =
     calmWorld
       \<lparr>tlsDial :=
          (\<lambda>addr. if tooManyColons addr
                   then Inl (''dial tcp: address '' @ addr @ '': too many colons in address'')
                   else Inr goodConn)\<rparr>"

text \<open>One monitored site, which is up.\<close>

definition oneSiteWorld :: world where
  "oneSiteWorld = calmWorld\<lparr>websiteURLs := Inr [''https://ok.test'']\<rparr>"

text \<open>Start-ups: everything works; the database cannot be opened; the environment file is missing.\<close>

definition goodBoot :: boot where
  "goodBoot = \<lparr>godotenvLoad = None, sqlOpen = None, bootWorld = oneSiteWorld\<rparr>"

definition dbDownBoot :: boot where
  "dbDownBoot =
     \<lparr>godotenvLoad = None,
      sqlOpen = Some ''invalid DSN: missing the slash separating the database name'',
      bootWorld = oneSiteWorld\<rparr>"

definition noEnvBoot :: boot where
  "noEnvBoot =
     \<lparr>godotenvLoad = Some ''open .env: no such file or directory'',
      sqlOpen = None,
      bootWorld = oneSiteWorld\<rparr>"

section \<open>Properties\<close>

subsection \<open>Library functions and observations\<close>


declare showNat.simps [simp del]

lemma Contains_iff_sublist: "Contains s substr \<longleftrightarrow> sublist substr s"
  by (induction s) (auto simp: sublist_Cons_right)

lemma Contains_appendI: "Contains (a @ substr @ b) substr"
  by (simp add: Contains_iff_sublist)

lemma escapeQuotes_append: "escapeQuotes (a @ b) = escapeQuotes a @ escapeQuotes b"
  by (simp add: escapeQuotes_def)

lemma chatPosts_append [simp]: "chatPosts (xs @ ys) = chatPosts xs @ chatPosts ys"
  by (induction xs rule: chatPosts.induct) simp_all

lemma mails_append [simp]: "mails (xs @ ys) = mails xs @ mails ys"
  by (induction xs rule: mails.induct) simp_all

lemma statusWrites_append [simp]: "statusWrites (xs @ ys) = statusWrites xs @ statusWrites ys"
  by (induction xs rule: statusWrites.induct) simp_all

lemma latencySamples_append [simp]:
  "latencySamples (xs @ ys) = latencySamples xs @ latencySamples ys"
  by (induction xs rule: latencySamples.induct) simp_all

lemma probes_Nil [simp]: "probes u [] = 0"
  by (simp add: probes_def)

lemma probes_Cons [simp]:
  "probes u (e # tr) = (if e = HttpGet u then 1 else 0) + probes u tr"
  by (simp add: probes_def)

lemma probes_append [simp]: "probes u (xs @ ys) = probes u xs + probes u ys"
  by (induction xs) simp_all

lemma sendSlackMessage_obs [simp]:
  "chatPosts (sendSlackMessage w m) = [chatPayload m]"
  "mails (sendSlackMessage w m) = []"
  "statusWrites (sendSlackMessage w m) = []"
  "latencySamples (sendSlackMessage w m) = []"
  "probes u (sendSlackMessage w m) = 0"
  by (simp_all add: sendSlackMessage_def chatPayload_def Let_def
      split: sum.splits prod.splits)

lemma updateWebsiteStatus_obs [simp]:
  "chatPosts (updateWebsiteStatus w url st rt) = []"
  "mails (updateWebsiteStatus w url st rt) = []"
  "statusWrites (updateWebsiteStatus w url st rt) = [(url, st, rt)]"
  "latencySamples (updateWebsiteStatus w url st rt) = []"
  "probes u (updateWebsiteStatus w url st rt) = 0"
  by (simp_all add: updateWebsiteStatus_def split: option.splits)

lemma saveRespTime_obs [simp]:
  "chatPosts (saveRespTime w url rt) = []"
  "mails (saveRespTime w url rt) = []"
  "statusWrites (saveRespTime w url rt) = []"
  "latencySamples (saveRespTime w url rt) = [(url, rt)]"
  "probes u (saveRespTime w url rt) = 0"
  by (simp_all add: saveRespTime_def split: option.splits)

lemma sendEmailToClient_obs [simp]:
  "chatPosts (sendEmailToClient w url st) = []"
  "mails (sendEmailToClient w url st) =
     (case ownerEmail w url of Inl err \<Rightarrow> [] | Inr to \<Rightarrow> [(to, alertMail to url st)])"
  "statusWrites (sendEmailToClient w url st) = []"
  "latencySamples (sendEmailToClient w url st) = []"
  "probes u (sendEmailToClient w url st) = 0"
  by (simp_all add: sendEmailToClient_def sendEmail_def alertMail_def Let_def
      split: sum.splits option.splits)

lemma checkSSL_obs [simp]:
  "chatPosts (fst (checkSSL w url)) = []"
  "mails (fst (checkSSL w url)) = []"
  "statusWrites (fst (checkSSL w url)) = []"
  "latencySamples (fst (checkSSL w url)) = []"
  "probes u (fst (checkSSL w url)) = 0"
  by (simp_all add: checkSSL_def Let_def
      split: sum.splits option.splits list.splits)

lemma checkWebsite_statusWrites:
  "statusWrites (fst (checkWebsite w url)) =
     [(case httpGet w url of
         GetError e \<Rightarrow> (url, e, 0)
       | Response code rt \<Rightarrow>
           if code = 200 then (url, ''Up'', rt)
           else (url, ''Down (Status Code: '' @ showInt code @ '')'', 0))]"
  by (simp add: checkWebsite_def Let_def split_beta split: http_result.splits sum.splits)

lemma checkWebsite_latencySamples:
  "latencySamples (fst (checkWebsite w url)) =
     (case httpGet w url of
         GetError e \<Rightarrow> []
       | Response code rt \<Rightarrow> if code = 200 then [(url, rt)] else [])"
  by (simp add: checkWebsite_def Let_def split_beta split: http_result.splits sum.splits)

lemma checkWebsite_probes: "probes u (fst (checkWebsite w url)) = (if u = url then 1 else 0)"
  by (auto simp add: checkWebsite_def Let_def split_beta split: http_result.splits)

lemma checkWebsite_chatPosts:
  "chatPosts (fst (checkWebsite w url)) =
     (case httpGet w url of
        GetError e \<Rightarrow>
          if Contains e ''net/http: TLS handshake timeout'' then
            [chatPayload (''WARNING: Website '' @ url @ '' could be down, please check. Status: '' @
                          e @ '' \<newline> Time: '' @ clock w)]
          else if Contains e ''no such host'' then
            [chatPayload (''WARNING: Website '' @ url @ '' could be down. Status: '' @
                          e @ '' \<newline> Time: '' @ clock w)]
          else
            [chatPayload (''ATTENTION: Website '' @ url @ '' is down. Status: '' @
                          e @ '' \<newline> Time: '' @ clock w)]
      | Response code rt \<Rightarrow> [])"
  by (simp add: checkWebsite_def Let_def split_beta split: http_result.splits sum.splits)

lemma checkWebsite_mails:
  "mails (fst (checkWebsite w url)) =
     (case httpGet w url of
        GetError e \<Rightarrow>
          if Contains e ''net/http: TLS handshake timeout'' then []
          else (case ownerEmail w url of Inl err \<Rightarrow> [] | Inr to \<Rightarrow> [(to, alertMail to url e)])
      | Response code rt \<Rightarrow>
          if code = 200 then []
          else (case ownerEmail w url of
                  Inl err \<Rightarrow> []
                | Inr to \<Rightarrow>
                    [(to, alertMail to url (''Down (Status Code: '' @ showInt code @ '')''))]))"
  by (simp add: checkWebsite_def Let_def split_beta split: http_result.splits sum.splits)

subsection \<open>What one check records\<close>

text \<open>
  Claim C6. Every call of \<open>checkWebsite\<close> calls \<open>updateWebsiteStatus\<close> exactly once, for
  the URL checked, whatever the outcome of the probe, also when certificate inspection
  panics afterwards. It calls \<open>saveRespTime\<close> exactly once when the probe answered 200,
  and not at all after a transport error or another status.
\<close>

theorem checkWebsite_records_once:
  "map fst (statusWrites (fst (checkWebsite w url))) = [url] \<and>
   map fst (latencySamples (fst (checkWebsite w url))) =
     (case httpGet w url of
        GetError e \<Rightarrow> []
      | Response code rt \<Rightarrow> if code = 200 then [url] else [])"
  by (simp add: checkWebsite_statusWrites checkWebsite_latencySamples
      split: http_result.splits)

text \<open>
  Claim C9. The status written by \<open>updateWebsiteStatus\<close> is \<open>Up\<close> with the measured
  response time for a 200 response, \<open>Down (Status Code: N)\<close> with response time 0 for
  another status \<open>N\<close> (for 503 the text is \<open>Down (Status Code: 503)\<close>), and the text of
  the transport error with response time 0 when \<open>http.Get\<close> failed.
\<close>

theorem checkWebsite_status_label:
  "statusWrites (fst (checkWebsite w url)) =
     [(case httpGet w url of
         GetError e \<Rightarrow> (url, e, 0)
       | Response code rt \<Rightarrow>
           if code = 200 then (url, ''Up'', rt)
           else (url, ''Down (Status Code: '' @ showInt code @ '')'', 0))] \<and>
   ''Down (Status Code: '' @ showInt 503 @ '')'' = ''Down (Status Code: 503)''"
  by (simp add: checkWebsite_statusWrites showInt_def showNat.simps)

subsection \<open>Notifications\<close>

lemma chatPayload_contains:
  "Contains (chatPayload (a @ '' could be down'' @ b)) ''could be down''"
proof -
  have "chatPayload (a @ '' could be down'' @ b) =
        (''{'' @ [CHR 0x22] @ ''text'' @ [CHR 0x22] @ '': '' @ [CHR 0x22] @ escapeQuotes a @ '' '') @ ''could be down'' @
        (escapeQuotes b @ [CHR 0x22] @ ''}'')"
    by (simp add: chatPayload_def escapeQuotes_append) (simp add: escapeQuotes_def)
  then show ?thesis
    by (simp only: Contains_appendI)
qed

text \<open>
  Claim C7. When \<open>http.Get\<close> fails with an error that mentions \<open>no such host\<close> (and not
  the TLS handshake timeout, which is tested first), the check posts exactly one chat
  message, the \<open>WARNING\<close> one whose text contains \<open>could be down\<close>, and runs the owner
  lookup for the URL; the alert mail goes to the address the lookup returns (there is
  nobody to send it to when the lookup finds no owner).
\<close>

theorem no_such_host_notifies:
  assumes "httpGet w url = GetError e"
    and "\<not> Contains e ''net/http: TLS handshake timeout''"
    and "Contains e ''no such host''"
  shows "chatPosts (fst (checkWebsite w url)) =
           [chatPayload (''WARNING: Website '' @ url @ '' could be down. Status: '' @
                         e @ '' \<newline> Time: '' @ clock w)] \<and>
         Contains (chatPayload (''WARNING: Website '' @ url @ '' could be down. Status: '' @
                         e @ '' \<newline> Time: '' @ clock w)) ''could be down'' \<and>
         DbQueryClientEmail url \<in> set (fst (checkWebsite w url)) \<and>
         mails (fst (checkWebsite w url)) =
           (case ownerEmail w url of
              Inl err \<Rightarrow> []
            | Inr to \<Rightarrow> [(to, alertMail to url e)])"
proof -
  have "Contains (chatPayload ((''WARNING: Website '' @ url) @ '' could be down'' @
          (''. Status: '' @ e @ '' \<newline> Time: '' @ clock w))) ''could be down''"
    by (rule chatPayload_contains)
  moreover have "DbQueryClientEmail url \<in> set (fst (checkWebsite w url))"
    using assms by (simp add: checkWebsite_def Let_def sendEmailToClient_def)
  ultimately show ?thesis
    using assms by (simp add: checkWebsite_chatPosts checkWebsite_mails)
qed

theorem no_such_host_notifies_witness:
  \<open>httpGet noHostWorld ''https://down.test'' =
     GetError ''Get "https://down.test": dial tcp: lookup down.test: no such host'' \<and>
   \<not> Contains ''Get "https://down.test": dial tcp: lookup down.test: no such host''
        ''net/http: TLS handshake timeout'' \<and>
   Contains ''Get "https://down.test": dial tcp: lookup down.test: no such host''
        ''no such host'' \<and>
   chatPosts (fst (checkWebsite noHostWorld ''https://down.test'')) =
     [''{"text": "WARNING: Website https://down.test could be down. Status: Get '' @
      [CHR 0x5C, CHR 0x22] @ ''https://down.test'' @ [CHR 0x5C, CHR 0x22] @
      '': dial tcp: lookup down.test: no such host \<newline> Time: 2024-01-01 00:00:00"}''] \<and>
   map fst (mails (fst (checkWebsite noHostWorld ''https://down.test''))) = [''owner@client.test'']\<close>
  using no_such_host_notifies [of noHostWorld "''https://down.test''"
      \<open>''Get "https://down.test": dial tcp: lookup down.test: no such host''\<close>]
  by (simp add: noHostWorld_def calmWorld_def chatPayload_def escapeQuotes_def)

text \<open>
  Claim C8. When \<open>http.Get\<close> fails with an error that mentions the TLS handshake
  timeout, the check posts exactly one chat message, the \<open>WARNING\<close> one, and neither
  looks the owner up nor sends a mail.
\<close>

theorem tls_timeout_chat_only:
  assumes "httpGet w url = GetError e"
    and "Contains e ''net/http: TLS handshake timeout''"
  shows "chatPosts (fst (checkWebsite w url)) =
           [chatPayload (''WARNING: Website '' @ url @
                         '' could be down, please check. Status: '' @
                         e @ '' \<newline> Time: '' @ clock w)] \<and>
         mails (fst (checkWebsite w url)) = [] \<and>
         DbQueryClientEmail url \<notin> set (fst (checkWebsite w url))"
proof -
  have "DbQueryClientEmail url \<notin> set (fst (checkWebsite w url))"
    using assms
    by (auto simp add: checkWebsite_def Let_def updateWebsiteStatus_def sendSlackMessage_def
        split: option.splits sum.splits if_splits)
  then show ?thesis
    using assms by (simp add: checkWebsite_chatPosts checkWebsite_mails)
qed

text \<open>
  The hypotheses hold for the error text of a timed-out handshake, and the body posted
  is the escaped \<open>WARNING\<close> message.
\<close>

theorem tls_timeout_chat_only_witness:
  \<open>httpGet tlsTimeoutWorld ''https://slow.test'' =
     GetError ''Get "https://slow.test": net/http: TLS handshake timeout'' \<and>
   Contains ''Get "https://slow.test": net/http: TLS handshake timeout''
     ''net/http: TLS handshake timeout'' \<and>
   chatPosts (fst (checkWebsite tlsTimeoutWorld ''https://slow.test'')) =
     [''{"text": "WARNING: Website https://slow.test could be down, please check. Status: Get '' @
      [CHR 0x5C, CHR 0x22] @ ''https://slow.test'' @ [CHR 0x5C, CHR 0x22] @
      '': net/http: TLS handshake timeout \<newline> Time: 2024-01-01 00:00:00"}''] \<and>
   mails (fst (checkWebsite tlsTimeoutWorld ''https://slow.test'')) = []\<close>
  using tls_timeout_chat_only [of tlsTimeoutWorld "''https://slow.test''"
      \<open>''Get "https://slow.test": net/http: TLS handshake timeout''\<close>]
  by (simp add: tlsTimeoutWorld_def calmWorld_def chatPayload_def escapeQuotes_def)

text \<open>
  Claim C2. A site that answers 503: the status is written and the owner gets the
  alert mail, but no chat message is posted. The \<open>WARNING\<close> message of lines 260-262 is
  guarded by \<open>err != nil\<close>, and \<open>err\<close> is \<open>nil\<close> whenever a response arrived.
\<close>

theorem http_failure_posts_no_chat:
  "chatPosts (fst (checkWebsite http503World ''https://slow.test'')) = [] \<and>
   statusWrites (fst (checkWebsite http503World ''https://slow.test'')) =
     [(''https://slow.test'', ''Down (Status Code: 503)'', 0)] \<and>
   map fst (mails (fst (checkWebsite http503World ''https://slow.test''))) =
     [''owner@client.test'']"
  by (simp add: checkWebsite_chatPosts checkWebsite_statusWrites checkWebsite_mails
      http503World_def calmWorld_def showInt_def showNat.simps)

subsection \<open>Start-up\<close>

text \<open>
  Claim C3. When \<open>sql.Open\<close> fails, \<open>main\<close> returns at line 52, so the process ends
  with status 0; when \<open>godotenv.Load\<close> fails, \<open>loadEnv\<close> ends it with status 1.
\<close>

theorem db_failure_exits_zero:
  "snd (main dbDownBoot timers) = MainReturned \<and>
   exitCode (snd (main dbDownBoot timers)) = Some 0 \<and>
   exitCode (snd (main noEnvBoot timers)) = Some 1"
  by (simp add: main_def dbDownBoot_def noEnvBoot_def Let_def)

subsection \<open>The de-duplication set\<close>

lemma markChecked_lookup [simp]:
  "lookupURL (markChecked checkedURLs url) u \<longleftrightarrow> u = url \<or> lookupURL checkedURLs u"
  by (simp add: lookupURL_def markChecked_def)

lemma foldl_markChecked_keeps:
  "lookupURL checkedURLs url \<Longrightarrow> lookupURL (foldl markChecked checkedURLs later) url"
  by (induction later arbitrary: checkedURLs) (simp_all add: lookupURL_def markChecked_def)

text \<open>
  Claim C5. Once a URL is marked, \<open>shouldCheck\<close> is false for it, and stays false
  through every later mark (marks are all that happens to the set between two resets).
  After \<open>resetCheckedURLs\<close> the set is empty: \<open>shouldCheck\<close> is true for the URL that was
  marked, and for every other URL.
\<close>

theorem marked_until_reset:
  "\<not> shouldCheck (foldl markChecked (markChecked checkedURLs url) later) url \<and>
   shouldCheck (resetCheckedURLs (foldl markChecked (markChecked checkedURLs url) later)) url \<and>
   shouldCheck (resetCheckedURLs checkedURLs) other"
proof -
  have "lookupURL (markChecked checkedURLs url) url"
    by (simp add: lookupURL_def markChecked_def)
  then have "lookupURL (foldl markChecked (markChecked checkedURLs url) later) url"
    by (rule foldl_markChecked_keeps)
  then show ?thesis
    by (simp add: shouldCheck_def resetCheckedURLs_def lookupURL_def)
qed

subsection \<open>Probes per window\<close>

lemma tickPass_marked:
  "lookupURL checkedURLs u \<Longrightarrow>
   probes u (fst (tickPass w websites checkedURLs)) = 0 \<and>
   lookupURL (snd (snd (tickPass w websites checkedURLs))) u"
proof (induction websites arbitrary: checkedURLs)
  case Nil
  then show ?case by simp
next
  case (Cons url websites)
  show ?case
  proof (cases "lookupURL checkedURLs url")
    case True
    with Cons show ?thesis by simp
  next
    case False
    with Cons.prems have neq: "u \<noteq> url" by auto
    obtain tr ended where cw: "checkWebsite w url = (tr, ended)"
      by (cases "checkWebsite w url")
    then have pr: "probes u tr = 0"
      using checkWebsite_probes [of u w url] neq by simp
    have "lookupURL (markChecked checkedURLs url) u"
      using Cons.prems by simp
    from Cons.IH [OF this] show ?thesis
      using False cw pr Cons.prems
      by (cases ended) (simp_all add: split_beta)
  qed
qed

lemma tickPass_once:
  "\<not> lookupURL checkedURLs u \<Longrightarrow>
   probes u (fst (tickPass w websites checkedURLs)) \<le> 1 \<and>
   (probes u (fst (tickPass w websites checkedURLs)) = 1 \<and>
    fst (snd (tickPass w websites checkedURLs)) = Returned \<longrightarrow>
    lookupURL (snd (snd (tickPass w websites checkedURLs))) u)"
proof (induction websites arbitrary: checkedURLs)
  case Nil
  then show ?case by simp
next
  case (Cons url websites)
  show ?case
  proof (cases "lookupURL checkedURLs url")
    case True
    with Cons show ?thesis by simp
  next
    case False
    obtain tr ended where cw: "checkWebsite w url = (tr, ended)"
      by (cases "checkWebsite w url")
    then have pr: "probes u tr = (if u = url then 1 else 0)"
      using checkWebsite_probes [of u w url] by simp
    show ?thesis
    proof (cases ended)
      case (Panicked p)
      with False cw pr show ?thesis by simp
    next
      case Returned
      show ?thesis
      proof (cases "u = url")
        case True
        then have "lookupURL (markChecked checkedURLs url) u" by simp
        from tickPass_marked [OF this, of w websites] show ?thesis
          using False cw pr Returned True by (simp add: split_beta)
      next
        case neq: False
        then have "\<not> lookupURL (markChecked checkedURLs url) u"
          using Cons.prems by simp
        from Cons.IH [OF this] show ?thesis
          using False cw pr Returned neq by (simp add: split_beta)
      qed
    qed
  qed
qed

lemma loop_marked:
  "ResetTimer \<notin> set timers \<Longrightarrow> lookupURL checkedURLs u \<Longrightarrow>
   probes u (fst (loop timers checkedURLs)) = 0"
proof (induction timers arbitrary: checkedURLs)
  case Nil
  then show ?case by simp
next
  case (Cons t timers)
  then obtain w where t: "t = TickerC w" by (cases t) auto
  show ?case
  proof (cases "websiteURLs w")
    case (Inl err)
    with Cons t show ?thesis by (simp add: split_beta)
  next
    case (Inr websites)
    obtain tr ended m' where tp: "tickPass w websites checkedURLs = (tr, ended, m')"
      by (cases "tickPass w websites checkedURLs")
    with tickPass_marked [OF Cons.prems(2), of w websites]
    have a: "probes u tr = 0" "lookupURL m' u" by simp_all
    with Cons t Inr tp show ?thesis
      by (cases ended) (simp_all add: split_beta)
  qed
qed

lemma loop_once:
  "ResetTimer \<notin> set timers \<Longrightarrow> probes u (fst (loop timers checkedURLs)) \<le> 1"
proof (induction timers arbitrary: checkedURLs)
  case Nil
  then show ?case by simp
next
  case (Cons t timers)
  then obtain w where t: "t = TickerC w" by (cases t) auto
  from Cons.prems have nr: "ResetTimer \<notin> set timers" by simp
  show ?case
  proof (cases "websiteURLs w")
    case (Inl err)
    with Cons t show ?thesis by (simp add: split_beta)
  next
    case (Inr websites)
    obtain tr ended m' where tp: "tickPass w websites checkedURLs = (tr, ended, m')"
      by (cases "tickPass w websites checkedURLs")
    have b: "probes u tr \<le> 1 \<and> (probes u tr = 1 \<and> ended = Returned \<longrightarrow> lookupURL m' u)"
    proof (cases "lookupURL checkedURLs u")
      case True
      from tickPass_marked [OF this, of w websites] tp show ?thesis by simp
    next
      case False
      from tickPass_once [OF this, of w websites] tp show ?thesis by simp
    qed
    show ?thesis
    proof (cases ended)
      case (Panicked p)
      with t Inr tp b show ?thesis by simp
    next
      case Returned
      show ?thesis
      proof (cases "probes u tr = 1")
        case True
        with b Returned have "lookupURL m' u" by simp
        from loop_marked [OF nr this] show ?thesis
          using t Inr tp Returned True by (simp add: split_beta)
      next
        case False
        with b have "probes u tr = 0" by simp
        with Cons.IH [OF nr, of m'] show ?thesis
          using t Inr tp Returned by (simp add: split_beta)
      qed
    qed
  qed
qed

lemma startupPass_probes:
  "snd (startupPass w websites) = Returned \<Longrightarrow>
   probes u (fst (startupPass w websites)) = count_list websites u"
proof (induction websites)
  case Nil
  then show ?case by simp
next
  case (Cons url websites)
  obtain tr ended where cw: "checkWebsite w url = (tr, ended)"
    by (cases "checkWebsite w url")
  then have pr: "probes u tr = (if u = url then 1 else 0)"
    using checkWebsite_probes [of u w url] by simp
  from Cons cw pr show ?case
    by (cases ended) (auto simp add: split_beta)
qed

lemma main_probes:
  assumes "godotenvLoad b = None" and "sqlOpen b = None"
    and "websiteURLs (bootWorld b) = Inr websites"
    and "snd (startupPass (bootWorld b) websites) = Returned"
  shows "probes u (fst (main b timers)) =
           count_list websites u + probes u (fst (loop timers Map.empty))"
proof -
  obtain tr where sp: "startupPass (bootWorld b) websites = (tr, Returned)"
    using assms(4) by (cases "startupPass (bootWorld b) websites") simp
  then have "probes u tr = count_list websites u"
    using startupPass_probes [of "bootWorld b" websites u] by simp
  then show ?thesis
    using assms sp by (simp add: main_def Let_def split_beta)
qed

text \<open>
  Claim C4, as the code has it. Over any run of tick passes with no reset between them,
  a URL is probed at most once, and not at all if it was marked when the run began. The
  start-up pass stands apart: it probes every entry of the fetched list, once per
  occurrence, and marks nothing, so the loop begins with an empty set.
\<close>

theorem ticks_probe_once_startup_apart:
  "(ResetTimer \<notin> set timers \<longrightarrow>
      probes url (fst (loop timers checkedURLs)) \<le> 1 \<and>
      (lookupURL checkedURLs url \<longrightarrow> probes url (fst (loop timers checkedURLs)) = 0)) \<and>
   (godotenvLoad b = None \<and> sqlOpen b = None \<and>
    websiteURLs (bootWorld b) = Inr websites \<and>
    snd (startupPass (bootWorld b) websites) = Returned \<longrightarrow>
      probes url (fst (main b timers)) =
        count_list websites url + probes url (fst (loop timers Map.empty)))"
  using loop_once [of timers url checkedURLs] loop_marked [of timers checkedURLs url]
    main_probes [of b websites url timers]
  by blast

text \<open>
  The theorem at a marked URL and two ticks with no reset, after a start-up that works.
\<close>

theorem ticks_probe_once_startup_apart_witness:
  "ResetTimer \<notin> set [TickerC oneSiteWorld, TickerC oneSiteWorld] \<and>
   lookupURL [''https://ok.test'' \<mapsto> True] ''https://ok.test'' \<and>
   godotenvLoad goodBoot = None \<and> sqlOpen goodBoot = None \<and>
   websiteURLs (bootWorld goodBoot) = Inr [''https://ok.test''] \<and>
   snd (startupPass (bootWorld goodBoot) [''https://ok.test'']) = Returned \<and>
   probes ''https://ok.test''
     (fst (loop [TickerC oneSiteWorld, TickerC oneSiteWorld]
             [''https://ok.test'' \<mapsto> True])) = 0 \<and>
   probes ''https://ok.test''
     (fst (main goodBoot [TickerC oneSiteWorld, TickerC oneSiteWorld])) =
     1 + probes ''https://ok.test''
           (fst (loop [TickerC oneSiteWorld, TickerC oneSiteWorld] Map.empty))"
proof -
  have ok: "snd (checkWebsite oneSiteWorld ''https://ok.test'') = Returned"
    by (simp add: checkWebsite_def checkSSL_def oneSiteWorld_def calmWorld_def goodConn_def
        Let_def)
  then have ret: "snd (startupPass (bootWorld goodBoot) [''https://ok.test'']) = Returned"
    by (cases "checkWebsite oneSiteWorld ''https://ok.test''") (simp add: goodBoot_def)
  have urls: "websiteURLs (bootWorld goodBoot) = Inr [''https://ok.test'']"
    by (simp add: goodBoot_def oneSiteWorld_def)
  show ?thesis
    using ret urls
      ticks_probe_once_startup_apart [of "[TickerC oneSiteWorld, TickerC oneSiteWorld]"
        "''https://ok.test''" "[''https://ok.test'' \<mapsto> True]" goodBoot
        "[''https://ok.test'']"]
    by (simp add: goodBoot_def lookupURL_def)
qed

text \<open>
  Claim C4 as stated fails. With no timer firing at all, a list that names a URL twice
  has it probed twice by the start-up pass; and a URL probed by the start-up pass is
  probed again by a tick that fires before any reset.
\<close>

theorem startup_pass_probes_again:
  "probes ''https://ok.test''
     (fst (main \<lparr>godotenvLoad = None, sqlOpen = None,
                 bootWorld = calmWorld\<lparr>websiteURLs :=
                   Inr [''https://ok.test'', ''https://ok.test'']\<rparr>\<rparr> [])) = 2 \<and>
   probes ''https://ok.test'' (fst (main goodBoot [TickerC oneSiteWorld])) = 2"
proof -
  have ok: "snd (checkWebsite w ''https://ok.test'') = Returned"
    if "httpGet w = httpGet calmWorld" "tlsDial w = tlsDial calmWorld" for w
    using that
    by (simp add: checkWebsite_def checkSSL_def calmWorld_def goodConn_def Let_def)
  have pr: "\<exists>tr. checkWebsite w ''https://ok.test'' = (tr, Returned) \<and>
              probes ''https://ok.test'' tr = 1"
    if "httpGet w = httpGet calmWorld" "tlsDial w = tlsDial calmWorld" for w
    using ok [OF that]
      checkWebsite_probes [of "''https://ok.test''" w "''https://ok.test''"]
    by (cases "checkWebsite w ''https://ok.test''") simp
  from pr [of "calmWorld\<lparr>websiteURLs := Inr [''https://ok.test'', ''https://ok.test'']\<rparr>"]
  obtain tr where a: "checkWebsite
        (calmWorld\<lparr>websiteURLs := Inr [''https://ok.test'', ''https://ok.test'']\<rparr>)
        ''https://ok.test'' = (tr, Returned)"
      "probes ''https://ok.test'' tr = 1"
    by auto
  from pr [of oneSiteWorld]
  obtain tr' where b: "checkWebsite oneSiteWorld ''https://ok.test'' = (tr', Returned)"
      "probes ''https://ok.test'' tr' = 1"
    by (auto simp add: oneSiteWorld_def)
  have urls: "websiteURLs oneSiteWorld = Inr [''https://ok.test'']"
    by (simp add: oneSiteWorld_def)
  have "probes ''https://ok.test''
     (fst (main \<lparr>godotenvLoad = None, sqlOpen = None,
                 bootWorld = calmWorld\<lparr>websiteURLs :=
                   Inr [''https://ok.test'', ''https://ok.test'']\<rparr>\<rparr> [])) = 2"
    using a by (simp add: main_def Let_def)
  moreover have "probes ''https://ok.test'' (fst (main goodBoot [TickerC oneSiteWorld])) = 2"
    using b urls by (simp add: main_def goodBoot_def Let_def lookupURL_def)
  ultimately show ?thesis by simp
qed

subsection \<open>Certificate inspection\<close>

lemma checkSSL_certFailure:
  "certFailure w url \<Longrightarrow> \<exists>p. snd (checkSSL w url) = Panicked p"
  by (auto simp add: certFailure_def checkSSL_def Let_def split: sum.splits option.splits)

lemma checkWebsite_certFailure:
  assumes "httpGet w url = Response 200 rt" and "certFailure w url"
  shows "\<exists>p. snd (checkWebsite w url) = Panicked p"
  using assms checkSSL_certFailure [of w url]
  by (auto simp add: checkWebsite_def Let_def split_beta)

lemma startupPass_stops:
  "snd (checkWebsite w url) = Panicked p \<Longrightarrow>
   startupPass w (before @ url # rest) = startupPass w (before @ [url])"
proof (induction before)
  case Nil
  then show ?case
    by (cases "checkWebsite w url") simp
next
  case (Cons a before)
  then show ?case
    by (cases "checkWebsite w a") (simp add: split_beta split: outcome.splits)
qed

lemma startupPass_panics:
  "snd (checkWebsite w url) = Panicked p \<Longrightarrow>
   snd (startupPass w (before @ url # rest)) \<noteq> Returned"
proof (induction before)
  case Nil
  then show ?case
    by (cases "checkWebsite w url") simp
next
  case (Cons a before)
  then show ?case
    by (cases "checkWebsite w a") (simp add: split_beta split: outcome.splits)
qed

lemma tickPass_stops:
  "snd (checkWebsite w url) = Panicked p \<Longrightarrow> \<not> lookupURL checkedURLs url \<Longrightarrow>
   tickPass w (before @ url # rest) checkedURLs = tickPass w (before @ [url]) checkedURLs"
proof (induction before arbitrary: checkedURLs)
  case Nil
  then show ?case
    by (cases "checkWebsite w url") simp
next
  case (Cons a before)
  show ?case
  proof (cases "lookupURL checkedURLs a")
    case True
    with Cons show ?thesis by simp
  next
    case False
    obtain tr ended where cw: "checkWebsite w a = (tr, ended)"
      by (cases "checkWebsite w a")
    show ?thesis
    proof (cases ended)
      case (Panicked q)
      with False cw show ?thesis by simp
    next
      case Returned
      with cw Cons.prems(1) have "a \<noteq> url" by auto
      with Cons.prems(2) have "\<not> lookupURL (markChecked checkedURLs a) url" by simp
      from Cons.IH [OF Cons.prems(1) this] show ?thesis
        using False cw Returned by (simp add: split_beta)
    qed
  qed
qed

lemma tickPass_panics:
  "snd (checkWebsite w url) = Panicked p \<Longrightarrow> \<not> lookupURL checkedURLs url \<Longrightarrow>
   fst (snd (tickPass w (before @ url # rest) checkedURLs)) \<noteq> Returned"
proof (induction before arbitrary: checkedURLs)
  case Nil
  then show ?case
    by (cases "checkWebsite w url") simp
next
  case (Cons a before)
  show ?case
  proof (cases "lookupURL checkedURLs a")
    case True
    with Cons show ?thesis by simp
  next
    case False
    obtain tr ended where cw: "checkWebsite w a = (tr, ended)"
      by (cases "checkWebsite w a")
    show ?thesis
    proof (cases ended)
      case (Panicked q)
      with False cw show ?thesis by simp
    next
      case Returned
      with cw Cons.prems(1) have "a \<noteq> url" by auto
      with Cons.prems(2) have "\<not> lookupURL (markChecked checkedURLs a) url" by simp
      from Cons.IH [OF Cons.prems(1) this] show ?thesis
        using False cw Returned by (simp add: split_beta)
    qed
  qed
qed

text \<open>
  Claim C1, as the code has it. When the site answered 200 and the dial or the hostname
  check of \<open>checkSSL\<close> fails, \<open>checkWebsite\<close> panics. By then the status \<open>Up\<close> and the
  response time are written; no chat message is posted and no mail is sent. The panic
  ends the pass: the URLs listed after this one are not reached, in the start-up pass
  and (for a URL not yet marked) in a tick pass alike.
\<close>

theorem cert_failure_panics:
  assumes "httpGet w url = Response 200 rt" and "certFailure w url"
  shows "(\<exists>p. snd (checkWebsite w url) = Panicked p) \<and>
         chatPosts (fst (checkWebsite w url)) = [] \<and>
         mails (fst (checkWebsite w url)) = [] \<and>
         statusWrites (fst (checkWebsite w url)) = [(url, ''Up'', rt)] \<and>
         latencySamples (fst (checkWebsite w url)) = [(url, rt)] \<and>
         startupPass w (before @ url # rest) = startupPass w (before @ [url]) \<and>
         snd (startupPass w (before @ url # rest)) \<noteq> Returned \<and>
         (\<not> lookupURL checkedURLs url \<longrightarrow>
            tickPass w (before @ url # rest) checkedURLs =
              tickPass w (before @ [url]) checkedURLs \<and>
            fst (snd (tickPass w (before @ url # rest) checkedURLs)) \<noteq> Returned)"
proof -
  from checkWebsite_certFailure [OF assms]
  obtain p where p: "snd (checkWebsite w url) = Panicked p" ..
  have obs: "chatPosts (fst (checkWebsite w url)) = [] \<and>
         mails (fst (checkWebsite w url)) = [] \<and>
         statusWrites (fst (checkWebsite w url)) = [(url, ''Up'', rt)] \<and>
         latencySamples (fst (checkWebsite w url)) = [(url, rt)]"
    using assms(1)
    by (simp add: checkWebsite_chatPosts checkWebsite_mails checkWebsite_statusWrites
        checkWebsite_latencySamples)
  from p obs startupPass_stops [OF p, of before rest] startupPass_panics [OF p, of before rest]
    tickPass_stops [OF p, of checkedURLs before rest]
    tickPass_panics [OF p, of checkedURLs before rest]
  show ?thesis by blast
qed

text \<open>
  The theorem at a site whose TLS dial fails, first of a list of two.
\<close>

theorem cert_failure_panics_witness:
  "httpGet badCertWorld ''https://bad.test'' = Response 200 120000000 \<and>
   certFailure badCertWorld ''https://bad.test'' \<and>
   \<not> lookupURL Map.empty ''https://bad.test'' \<and>
   (\<exists>p. snd (checkWebsite badCertWorld ''https://bad.test'') = Panicked p) \<and>
   startupPass badCertWorld ([] @ ''https://bad.test'' # [''https://ok.test'']) =
     startupPass badCertWorld ([] @ [''https://bad.test'']) \<and>
   tickPass badCertWorld ([] @ ''https://bad.test'' # [''https://ok.test'']) Map.empty =
     tickPass badCertWorld ([] @ [''https://bad.test'']) Map.empty"
  using cert_failure_panics [of badCertWorld "''https://bad.test''" 120000000 "[]"
      "[''https://ok.test'']" Map.empty]
  by (simp add: badCertWorld_def calmWorld_def certFailure_def TrimPrefix_def lookupURL_def)

lemma badCert_panics:
  "snd (checkWebsite badCertWorld ''https://bad.test'') =
     Panicked ''Server doesn't support SSL certificate err: remote error: tls: handshake failure''"
  by (simp add: checkWebsite_def checkSSL_def badCertWorld_def calmWorld_def TrimPrefix_def
      Let_def)

text \<open>
  Claim C1 as stated fails. The dial to \<open>bad.test\<close> fails: the check panics, posts no
  chat message, \<open>ok.test\<close> next in the list is never probed, and the process ends.
\<close>

theorem cert_failure_aborts_pass:
  "snd (checkWebsite badCertWorld ''https://bad.test'') =
     Panicked ''Server doesn't support SSL certificate err: remote error: tls: handshake failure'' \<and>
   chatPosts (fst (checkWebsite badCertWorld ''https://bad.test'')) = [] \<and>
   probes ''https://ok.test''
     (fst (startupPass badCertWorld [''https://bad.test'', ''https://ok.test''])) = 0 \<and>
   snd (main \<lparr>godotenvLoad = None, sqlOpen = None, bootWorld = badCertWorld\<rparr> []) =
     Crashed ''Server doesn't support SSL certificate err: remote error: tls: handshake failure''"
proof -
  obtain tr where cw: "checkWebsite badCertWorld ''https://bad.test'' =
      (tr, Panicked ''Server doesn't support SSL certificate err: remote error: tls: handshake failure'')"
    using badCert_panics by (cases "checkWebsite badCertWorld ''https://bad.test''") simp
  then have pr: "probes ''https://ok.test'' tr = 0"
    using checkWebsite_probes [of "''https://ok.test''" badCertWorld "''https://bad.test''"]
    by simp
  have ch: "chatPosts (fst (checkWebsite badCertWorld ''https://bad.test'')) = []"
    by (simp add: checkWebsite_chatPosts badCertWorld_def calmWorld_def)
  have urls: "websiteURLs badCertWorld = Inr [''https://bad.test'', ''https://ok.test'']"
    by (simp add: badCertWorld_def)
  show ?thesis
    using cw pr ch urls by (simp add: main_def Let_def)
qed

lemma dials_append [simp]: "dials (xs @ ys) = dials xs @ dials ys"
  by (induction xs rule: dials.induct) simp_all

lemma dials_leaves [simp]:
  "dials (sendSlackMessage w m) = []"
  "dials (updateWebsiteStatus w url st rt) = []"
  "dials (saveRespTime w url rt) = []"
  "dials (sendEmailToClient w url st) = []"
  by (simp_all add: sendSlackMessage_def updateWebsiteStatus_def saveRespTime_def
      sendEmailToClient_def sendEmail_def Let_def split: sum.splits option.splits)

lemma checkSSL_dials:
  "dials (fst (checkSSL w url)) = [TrimPrefix url ''https://'' @ '':443'']"
  by (simp add: checkSSL_def Let_def split: sum.splits option.splits list.splits)

lemma checkWebsite_dials:
  "httpGet w url = Response 200 rt \<Longrightarrow>
   dials (fst (checkWebsite w url)) = [TrimPrefix url ''https://'' @ '':443'']"
  by (simp add: checkWebsite_def Let_def split_beta checkSSL_dials)

lemma dials_member: "TlsDial addr \<in> set tr \<longleftrightarrow> addr \<in> set (dials tr)"
  by (induction tr rule: dials.induct) auto

lemma tooManyColons_url:
  "\<not> prefix ''['' url \<Longrightarrow> CHR '':'' \<in> set url \<Longrightarrow> tooManyColons (url @ '':443'')"
proof -
  assume a: "\<not> prefix ''['' url" and b: "CHR '':'' \<in> set url"
  from b have "filter (\<lambda>c. c = CHR '':'') url \<noteq> []"
    by (simp add: filter_empty_conv)
  then have "1 \<le> length (filter (\<lambda>c. c = CHR '':'') url)"
    by (cases "filter (\<lambda>c. c = CHR '':'') url") simp_all
  moreover from a have "\<not> prefix ''['' (url @ '':443'')"
    by (cases url) simp_all
  ultimately show ?thesis
    by (simp add: tooManyColons_def)
qed

text \<open>
  Claim C10. \<open>checkSSL\<close> removes a leading \<open>https://\<close> and nothing else. For a URL
  \<open>https://host\<close> that answered 200, the one address dialled is \<open>host:443\<close>. For a URL
  that does not begin with \<open>https://\<close> and answered 200, the one address dialled is the
  whole URL, scheme included, followed by \<open>:443\<close>; an error of the dial ends in the
  panic of line 175; and a dialer that follows Go's address rule does return an error,
  since the colon of the scheme is one colon too many.
\<close>

theorem checkSSL_strips_https_only:
  "TrimPrefix (''https://'' @ host) ''https://'' = host \<and>
   (\<not> prefix ''https://'' url \<longrightarrow> TrimPrefix url ''https://'' = url) \<and>
   (httpGet w (''https://'' @ host) = Response 200 rt \<longrightarrow>
      TlsDial (host @ '':443'') \<in> set (fst (checkWebsite w (''https://'' @ host))) \<and>
      dials (fst (checkWebsite w (''https://'' @ host))) = [host @ '':443'']) \<and>
   (httpGet w url = Response 200 rt \<and> \<not> prefix ''https://'' url \<longrightarrow>
      TlsDial (url @ '':443'') \<in> set (fst (checkWebsite w url)) \<and>
      dials (fst (checkWebsite w url)) = [url @ '':443''] \<and>
      (\<forall>err. tlsDial w (url @ '':443'') = Inl err \<longrightarrow>
         snd (checkWebsite w url) =
           Panicked (''Server doesn't support SSL certificate err: '' @ err)) \<and>
      (\<not> prefix ''['' url \<and> CHR '':'' \<in> set url \<and> refusesTooManyColons w \<longrightarrow>
         (\<exists>err. snd (checkWebsite w url) =
            Panicked (''Server doesn't support SSL certificate err: '' @ err))))"
proof -
  have strip: "TrimPrefix (''https://'' @ host) ''https://'' = host"
    by (simp add: TrimPrefix_def)
  have keep: "\<not> prefix ''https://'' url \<Longrightarrow> TrimPrefix url ''https://'' = url"
    by (simp add: TrimPrefix_def)
  have secure: "dials (fst (checkWebsite w (''https://'' @ host))) = [host @ '':443'']"
    if "httpGet w (''https://'' @ host) = Response 200 rt"
    using checkWebsite_dials [OF that] strip by simp
  have secure_dial:
    "TlsDial (host @ '':443'') \<in> set (fst (checkWebsite w (''https://'' @ host)))"
    if "httpGet w (''https://'' @ host) = Response 200 rt"
    using secure [OF that] by (simp add: dials_member)
  have plain: "dials (fst (checkWebsite w url)) = [url @ '':443'']"
    if "httpGet w url = Response 200 rt" "\<not> prefix ''https://'' url"
    using checkWebsite_dials [OF that(1)] keep [OF that(2)] by simp
  have dial: "TlsDial (url @ '':443'') \<in> set (fst (checkWebsite w url))"
    if "httpGet w url = Response 200 rt" "\<not> prefix ''https://'' url"
    using plain [OF that] by (simp add: dials_member)
  have err: "snd (checkWebsite w url) =
           Panicked (''Server doesn't support SSL certificate err: '' @ e)"
    if "httpGet w url = Response 200 rt" "\<not> prefix ''https://'' url"
      "tlsDial w (url @ '':443'') = Inl e" for e
    using that keep
    by (simp add: checkWebsite_def checkSSL_def Let_def split_beta)
  have refused: "\<exists>e. snd (checkWebsite w url) =
            Panicked (''Server doesn't support SSL certificate err: '' @ e)"
    if "httpGet w url = Response 200 rt" "\<not> prefix ''https://'' url"
      "\<not> prefix ''['' url" "CHR '':'' \<in> set url" "refusesTooManyColons w"
  proof -
    from that(3,4) have "tooManyColons (url @ '':443'')" by (rule tooManyColons_url)
    with that(5) have "isl (tlsDial w (url @ '':443''))"
      by (simp add: refusesTooManyColons_def)
    then obtain e where "tlsDial w (url @ '':443'') = Inl e"
      by (cases "tlsDial w (url @ '':443'')") simp_all
    with err [OF that(1,2)] show ?thesis by blast
  qed
  from strip keep secure secure_dial plain dial err refused show ?thesis by blast
qed

text \<open>
  The theorem at \<open>https://secure.test\<close> and at \<open>http://plain.test\<close>, with a dialer that
  refuses an address with too many colons: the first is dialled as \<open>secure.test:443\<close>,
  the second with its scheme, and refused.
\<close>

theorem checkSSL_strips_https_only_witness:
  "httpGet strictDialWorld (''https://'' @ ''secure.test'') = Response 200 120000000 \<and>
   httpGet strictDialWorld ''http://plain.test'' = Response 200 120000000 \<and>
   \<not> prefix ''https://'' ''http://plain.test'' \<and>
   \<not> prefix ''['' ''http://plain.test'' \<and>
   CHR '':'' \<in> set ''http://plain.test'' \<and>
   refusesTooManyColons strictDialWorld \<and>
   tlsDial strictDialWorld (''http://plain.test'' @ '':443'') =
     Inl ''dial tcp: address http://plain.test:443: too many colons in address'' \<and>
   TlsDial ''secure.test:443'' \<in> set (fst (checkWebsite strictDialWorld ''https://secure.test'')) \<and>
   dials (fst (checkWebsite strictDialWorld ''https://secure.test'')) = [''secure.test:443''] \<and>
   TlsDial ''http://plain.test:443'' \<in> set (fst (checkWebsite strictDialWorld ''http://plain.test'')) \<and>
   dials (fst (checkWebsite strictDialWorld ''http://plain.test'')) = [''http://plain.test:443''] \<and>
   snd (checkWebsite strictDialWorld ''http://plain.test'') =
     Panicked ''Server doesn't support SSL certificate err: dial tcp: address http://plain.test:443: too many colons in address''"
  using checkSSL_strips_https_only [of "''secure.test''" "''http://plain.test''"
      strictDialWorld 120000000]
  by (simp add: strictDialWorld_def calmWorld_def refusesTooManyColons_def tooManyColons_def)

end
